theory Spec2Isabelle
  imports Complex_Main "HOL-Library.Product_Lexorder"
begin

section \<open>The BPER statement parser (src/src/ingestion/bper_parser_improved.py)\<close>

text \<open>
  Modelling conventions.
  \<^item> A Python \<open>str\<close> is a \<open>string\<close> (list of 8-bit characters): ASCII characters stand for
    themselves and the euro sign is the single character \<open>0xA4\<close>, so that offsets count
    characters as Python does. Other non-ASCII characters are outside the model; the
    classes \<open>\d\<close> and \<open>\s\<close> are their ASCII parts.
  \<^item> A Python \<open>float\<close> is the exact rational it denotes: \<open>float(s)\<close> is the decimal value
    of \<open>s\<close>, and sums are exact. Binary rounding is outside the model.
  \<^item> A raised exception is the \<open>Inl\<close> branch of a sum; \<open>None\<close> is \<open>None\<close>.
\<close>

subsection \<open>Characters and string primitives\<close>

datatype error = TypeError | KeyError | ZeroDivisionError | ValueError

definition euro :: char where
  "euro = CHR 0xA4"

definition newline :: char where
  "newline = CHR 0x0A"

text \<open>\<open>\d\<close>: the ASCII digits.\<close>

definition is_digit :: "char \<Rightarrow> bool" where
  "is_digit c = (c \<in> set ''0123456789'')"

definition digit_val :: "char \<Rightarrow> nat" where
  "digit_val c = length (takeWhile (\<lambda>d. d \<noteq> c) ''0123456789'')"

text \<open>\<open>\s\<close> and the characters \<open>str.strip()\<close> removes: tab, LF, VT, FF, CR, the four
  separators \<open>0x1C\<close>..\<open>0x1F\<close> and the space.\<close>

definition is_space :: "char \<Rightarrow> bool" where
  "is_space c = (c \<in> set [CHR 0x09, CHR 0x0A, CHR 0x0B, CHR 0x0C, CHR 0x0D,
                            CHR 0x1C, CHR 0x1D, CHR 0x1E, CHR 0x1F, CHR 0x20])"

text \<open>\<open>s.strip()\<close>\<close>

definition strip :: "string \<Rightarrow> string" where
  "strip s = rev (dropWhile is_space (rev (dropWhile is_space s)))"

text \<open>\<open>s.startswith(p)\<close>\<close>

fun startswith :: "string \<Rightarrow> string \<Rightarrow> bool" where
  "startswith [] s = True"
| "startswith (p # ps) [] = False"
| "startswith (p # ps) (c # cs) = (p = c \<and> startswith ps cs)"

text \<open>\<open>sub in s\<close>\<close>

fun contains :: "string \<Rightarrow> string \<Rightarrow> bool" where
  "contains sub [] = (sub = [])"
| "contains sub (c # cs) = (startswith sub (c # cs) \<or> contains sub cs)"

text \<open>\<open>s.find(sub)\<close>: the offset of the first occurrence, or -1.\<close>

fun find_from :: "int \<Rightarrow> string \<Rightarrow> string \<Rightarrow> int" where
  "find_from i sub [] = (if sub = [] then i else - 1)"
| "find_from i sub (c # cs) = (if startswith sub (c # cs) then i else find_from (i + 1) sub cs)"

definition py_find :: "string \<Rightarrow> string \<Rightarrow> int" where
  "py_find s sub = find_from 0 sub s"

text \<open>\<open>s.replace(old, '', 1)\<close>: the first occurrence of \<open>old\<close> removed.\<close>

fun remove_first :: "string \<Rightarrow> string \<Rightarrow> string" where
  "remove_first old [] = []"
| "remove_first old (c # cs) =
     (if startswith old (c # cs) then drop (length old) (c # cs) else c # remove_first old cs)"

text \<open>\<open>s.lower()\<close> on ASCII.\<close>

definition lower_char :: "char \<Rightarrow> char" where
  "lower_char c =
     (case map_of (zip ''ABCDEFGHIJKLMNOPQRSTUVWXYZ'' ''abcdefghijklmnopqrstuvwxyz'') c of
        Some l \<Rightarrow> l
      | None \<Rightarrow> c)"

definition lower :: "string \<Rightarrow> string" where
  "lower s = map lower_char s"

text \<open>The value of a string of decimal digits, most significant first.\<close>

definition digits_val :: "string \<Rightarrow> nat" where
  "digits_val ds = foldl (\<lambda>n c. 10 * n + digit_val c) 0 ds"

subsection \<open>Field extractors\<close>

text \<open>
  \<open>float(s)\<close> on plain decimal literals: surrounding whitespace, an optional sign, digits
  with at most one point and at least one digit. \<open>None\<close> is the \<open>ValueError\<close>. The callers
  pass strings matched by \<open>[\d.,]+\<close> only, so the exponent, \<open>inf\<close>, \<open>nan\<close> and underscore
  forms of a float literal cannot occur and are not modelled.
\<close>

definition unsigned_float :: "string \<Rightarrow> rat option" where
  "unsigned_float body =
     (let ip = takeWhile is_digit body; rest = dropWhile is_digit body in
      case rest of
        [] \<Rightarrow> if ip = [] then None else Some (of_nat (digits_val ip))
      | c # fp \<Rightarrow>
          if c = CHR ''.'' \<and> list_all is_digit fp \<and> (ip \<noteq> [] \<or> fp \<noteq> [])
          then Some (of_nat (digits_val ip) + of_nat (digits_val fp) / 10 ^ length fp)
          else None)"

definition py_float :: "string \<Rightarrow> rat option" where
  "py_float s =
     (case strip s of
        [] \<Rightarrow> None
      | c # cs \<Rightarrow>
          if c = CHR ''-'' then map_option uminus (unsigned_float cs)
          else if c = CHR ''+'' then unsigned_float cs
          else unsigned_float (c # cs))"

text \<open>The string \<open>_parse_amount\<close> hands to \<open>float\<close>.\<close>

definition normalise_amount :: "string \<Rightarrow> string" where
  "normalise_amount amount_str =
     map (\<lambda>c. if c = CHR '','' then CHR ''.'' else c)
       (filter (\<lambda>c. c \<noteq> CHR ''.'')
         (strip (filter (\<lambda>c. c \<noteq> euro) (strip amount_str))))"

definition parse_amount :: "string \<Rightarrow> rat" where
  "parse_amount amount_str =
     (if amount_str = [] \<or> strip amount_str = [] then 0
      else case py_float (normalise_amount amount_str) of
             Some v \<Rightarrow> v
           | None \<Rightarrow> 0)"




text \<open>
  A calendar date is (year, month, day); the order on dates is the lexicographic order
  of the triple. \<open>make_date\<close> is the constructor \<open>date(y, m, d)\<close>, whose \<open>ValueError\<close> on a
  day or month out of range is \<open>None\<close>.
\<close>

type_synonym date = "nat \<times> nat \<times> nat"

definition is_leap :: "nat \<Rightarrow> bool" where
  "is_leap y = (y mod 4 = 0 \<and> (y mod 100 \<noteq> 0 \<or> y mod 400 = 0))"

definition days_in_month :: "nat \<Rightarrow> nat \<Rightarrow> nat" where
  "days_in_month y m =
     (if m = 2 then (if is_leap y then 29 else 28)
      else if m = 4 \<or> m = 6 \<or> m = 9 \<or> m = 11 then 30 else 31)"

definition make_date :: "nat \<Rightarrow> nat \<Rightarrow> nat \<Rightarrow> date option" where
  "make_date y m d =
     (if 1 \<le> y \<and> y \<le> 9999 \<and> 1 \<le> m \<and> m \<le> 12 \<and> 1 \<le> d \<and> d \<le> days_in_month y m
      then Some (y, m, d) else None)"

text \<open>The year \<open>strptime\<close> gives to the two digits of \<open>%y\<close>: 69..99 are 1969..1999 and
  00..68 are 2000..2068.\<close>

definition strptime_year :: "nat \<Rightarrow> nat" where
  "strptime_year yy = (if yy \<le> 68 then 2000 + yy else 1900 + yy)"

text \<open>
  \<open>datetime.strptime(s, '%d/%m/%y')\<close> on the tokens the callers pass, which are matched by
  \<open>\d{2}/\d{2}/\d{2}\<close>: two digits for a day 01..31, two for a month 01..12, two for the
  year, and then the date must exist. Every failure is a \<open>ValueError\<close>, here \<open>None\<close>.
  Strings of another shape are never passed and are mapped to \<open>None\<close>.
\<close>

fun strptime_short :: "string \<Rightarrow> date option" where
  "strptime_short [d1, d2, s1, m1, m2, s2, y1, y2] =
     (if is_digit d1 \<and> is_digit d2 \<and> s1 = CHR ''/'' \<and> is_digit m1 \<and> is_digit m2 \<and>
         s2 = CHR ''/'' \<and> is_digit y1 \<and> is_digit y2
      then let d = digits_val [d1, d2]; m = digits_val [m1, m2]; yy = digits_val [y1, y2]
           in if 1 \<le> d \<and> d \<le> 31 \<and> 1 \<le> m \<and> m \<le> 12
              then make_date (strptime_year yy) m d else None
      else None)"
| "strptime_short _ = None"

text \<open>\<open>_parse_date_short\<close>: the bare \<open>except\<close> turns every exception into \<open>None\<close>.\<close>

definition parse_date_short :: "string \<Rightarrow> date option" where
  "parse_date_short date_str =
     (case strptime_short date_str of
        None \<Rightarrow> None
      | Some (y, m, d) \<Rightarrow> if y > 2030 then make_date (y - 100) m d else Some (y, m, d))"

text \<open>The century resolution: the year \<open>_parse_date_short\<close> returns for the two digits
  \<open>yy\<close>, that is the year of \<open>strptime\<close> moved back a century when it is after 2030.\<close>

definition resolve_year :: "nat \<Rightarrow> nat" where
  "resolve_year yy = (let y = strptime_year yy in if y > 2030 then y - 100 else y)"

subsection \<open>Record reconstructor: amounts of a transaction-start line\<close>

text \<open>
  \<open>re.findall(r'([\d.]+,\d{2})', line)\<close>. At a given offset the greedy run \<open>[\d.]+\<close> is the
  longest run of digits and points; a shorter run is followed by a digit or a point and
  never by the comma, so backtracking adds no match. The scan resumes right after a
  match and one character further after a failure; the counter is the number of
  characters still covered by the last match.
\<close>

definition is_amount_char :: "char \<Rightarrow> bool" where
  "is_amount_char c = (is_digit c \<or> c = CHR ''.'')"

definition match_amount :: "string \<Rightarrow> string option" where
  "match_amount s =
     (let run = takeWhile is_amount_char s in
      case dropWhile is_amount_char s of
        c # d1 # d2 # rest \<Rightarrow>
          if run \<noteq> [] \<and> c = CHR '','' \<and> is_digit d1 \<and> is_digit d2
          then Some (run @ [c, d1, d2]) else None
      | _ \<Rightarrow> None)"

fun findall_from :: "nat \<Rightarrow> string \<Rightarrow> string list" where
  "findall_from k [] = []"
| "findall_from (Suc k) (c # cs) = findall_from k cs"
| "findall_from 0 (c # cs) =
     (case match_amount (c # cs) of
        Some tok \<Rightarrow> tok # findall_from (length tok - 1) cs
      | None \<Rightarrow> findall_from 0 cs)"

definition findall_amounts :: "string \<Rightarrow> string list" where
  "findall_amounts line = findall_from 0 line"

text \<open>Python truthiness of an optional number: \<open>None\<close> and zero are false.\<close>

definition truthy :: "rat option \<Rightarrow> bool" where
  "truthy x = (case x of None \<Rightarrow> False | Some v \<Rightarrow> v \<noteq> 0)"

record trans_data =
  uscita :: "rat option"
  entrata :: "rat option"
  importo_netto :: rat
  descrizione_riga :: string

text \<open>The pair (uscita, entrata) that \<open>_parse_transaction_amounts\<close> assigns from the tokens
  and the offset of the first one.\<close>

definition classify_amounts :: "string \<Rightarrow> string list \<Rightarrow> rat option \<times> rat option" where
  "classify_amounts line amounts =
     (case amounts of
        [] \<Rightarrow> (None, None)
      | a0 # others \<Rightarrow>
          if py_find line a0 > 20 then (None, Some (parse_amount a0))
          else (Some (parse_amount a0),
                case others of [] \<Rightarrow> None | a1 # _ \<Rightarrow> Some (parse_amount a1)))"

definition net_amount :: "rat option \<Rightarrow> rat option \<Rightarrow> rat" where
  "net_amount usc ent =
     (if truthy ent then the ent else if truthy usc then - the usc else 0)"

definition parse_transaction_amounts :: "string \<Rightarrow> trans_data" where
  "parse_transaction_amounts line =
     (let amounts = findall_amounts line;
          description = foldl (\<lambda>d amount. remove_first amount d) line amounts;
          (usc, ent) = classify_amounts line amounts
      in \<lparr>uscita = usc, entrata = ent, importo_netto = net_amount usc ent,
          descrizione_riga = strip description\<rparr>)"

subsection \<open>Description clean-up and categorizer\<close>

text \<open>\<open>re.sub(r'\s+', ' ', d)\<close>: every maximal run of whitespace becomes one space. The
  flag says that the previous character was whitespace.\<close>

fun collapse_ws :: "bool \<Rightarrow> string \<Rightarrow> string" where
  "collapse_ws in_run [] = []"
| "collapse_ws in_run (c # cs) =
     (if is_space c then (if in_run then collapse_ws True cs else CHR '' '' # collapse_ws True cs)
      else c # collapse_ws False cs)"

text \<open>
  \<open>-RIF\.\s*\d+/\d+$\<close> matched at offset 0. Each greedy part is followed by a character
  outside its class, so the match is deterministic. \<open>$\<close> holds at the end of the string
  and before a final newline; the result is what follows the match.
\<close>

definition match_rif :: "string \<Rightarrow> string option" where
  "match_rif s =
     (if startswith ''-RIF.'' s then
        let r1 = dropWhile is_space (drop 5 s);
            n1 = takeWhile is_digit r1; r2 = dropWhile is_digit r1
        in case r2 of
             [] \<Rightarrow> None
           | c # r3 \<Rightarrow>
               let n2 = takeWhile is_digit r3; r4 = dropWhile is_digit r3
               in if n1 \<noteq> [] \<and> c = CHR ''/'' \<and> n2 \<noteq> [] \<and> (r4 = [] \<or> r4 = [newline])
                  then Some r4 else None
      else None)"

text \<open>\<open>re.sub(r'-RIF\.\s*\d+/\d+$', '', d)\<close>: the leftmost match is removed; nothing after
  it can match again.\<close>

fun sub_rif :: "string \<Rightarrow> string" where
  "sub_rif [] = []"
| "sub_rif (c # cs) =
     (case match_rif (c # cs) of
        Some rest \<Rightarrow> rest
      | None \<Rightarrow> c # sub_rif cs)"

definition clean_description :: "string \<Rightarrow> string" where
  "clean_description description = strip (sub_rif (collapse_ws False description))"

text \<open>The table of \<open>_suggest_category\<close>, in the order of the dictionary literal (a Python
  \<open>dict\<close> iterates in insertion order).\<close>

definition categories :: "(string \<times> string list) list" where
  "categories =
     [(''Affitto'', [''affitto'', ''canone affitto'', ''fitto'']),
      (''Stipendio'', [''stipendio'', ''bonifico o/c'', ''bonifico sepa'']),
      (''Utenze'', [''italia power'', ''gas'', ''luce'', ''energia'']),
      (''PayPal'', [''paypal'']),
      (''Commissioni'', [''commissioni'', ''canone mensile'', ''spese su prelievo'']),
      (''Prelievo'', [''prel. atm'', ''prelievo atm'']),
      (''Spesa Alimentari'', [''supermercato'', ''conad'']),
      (''Trasporti'', [''atac'', ''trenitalia'', ''unicocampania'']),
      (''Ristorazione'', [''bar'', ''caffetterie'', ''pizzeria'', ''ristorante'']),
      (''Salute'', [''farmacia'', ''diagnostica'']),
      (''Shopping'', [''libraccio'', ''klarna'']),
      (''Carburante'', [''stazione energas'']),
      (''Servizi'', [''glovo'', ''sharenow''])]"

text \<open>The inner loop over the keywords of one category: does one of them occur?\<close>

fun keyword_loop :: "string list \<Rightarrow> string \<Rightarrow> bool" where
  "keyword_loop [] description_lower = False"
| "keyword_loop (keyword # keywords) description_lower =
     (if contains keyword description_lower then True
      else keyword_loop keywords description_lower)"

text \<open>The outer loop over the categories, returning at the first hit.\<close>

fun category_loop :: "(string \<times> string list) list \<Rightarrow> string \<Rightarrow> string" where
  "category_loop [] description_lower = ''Altro''"
| "category_loop ((category, keywords) # rest) description_lower =
     (if keyword_loop keywords description_lower then category
      else category_loop rest description_lower)"

definition suggest_category :: "string \<Rightarrow> string" where
  "suggest_category description = category_loop categories (lower description)"

subsection \<open>Table segmenter and record reconstructor: one page\<close>

text \<open>\<open>\s+\<close> followed by a non-whitespace literal: at least one whitespace character,
  then all of them.\<close>

definition skip_spaces1 :: "string \<Rightarrow> string option" where
  "skip_spaces1 s =
     (case s of
        [] \<Rightarrow> None
      | c # cs \<Rightarrow> if is_space c then Some (dropWhile is_space cs) else None)"

text \<open>A literal at offset 0: what follows it.\<close>

definition match_lit :: "string \<Rightarrow> string \<Rightarrow> string option" where
  "match_lit lit s = (if startswith lit s then Some (drop (length lit) s) else None)"

text \<open>\<open>DATA\s+VALUTA\s+USCITE\s+ENTRATE\s+DESCRIZIONE\<close> at offset 0.\<close>

definition match_header :: "string \<Rightarrow> bool" where
  "match_header s =
     (case Option.bind (match_lit ''DATA'' s) skip_spaces1 of None \<Rightarrow> False | Some r1 \<Rightarrow>
     (case Option.bind (match_lit ''VALUTA'' r1) skip_spaces1 of None \<Rightarrow> False | Some r2 \<Rightarrow>
     (case Option.bind (match_lit ''USCITE'' r2) skip_spaces1 of None \<Rightarrow> False | Some r3 \<Rightarrow>
     (case Option.bind (match_lit ''ENTRATE'' r3) skip_spaces1 of None \<Rightarrow> False | Some r4 \<Rightarrow>
      startswith ''DESCRIZIONE'' r4))))"

text \<open>\<open>re.search\<close> of the header pattern: a match at some offset.\<close>

fun search_header :: "string \<Rightarrow> bool" where
  "search_header [] = False"
| "search_header (c # cs) = (match_header (c # cs) \<or> search_header cs)"

definition is_footer :: "string \<Rightarrow> bool" where
  "is_footer l = (contains ''Dati da utilizzare'' l \<or> contains ''Mod. 05.13.0011'' l)"

text \<open>\<open>\d{2}/\d{2}/\d{2}\<close> at offset 0: the token and what follows it.\<close>

fun match_date_token :: "string \<Rightarrow> (string \<times> string) option" where
  "match_date_token (d1 # d2 # s1 # m1 # m2 # s2 # y1 # y2 # rest) =
     (if is_digit d1 \<and> is_digit d2 \<and> s1 = CHR ''/'' \<and> is_digit m1 \<and> is_digit m2 \<and>
         s2 = CHR ''/'' \<and> is_digit y1 \<and> is_digit y2
      then Some ([d1, d2, s1, m1, m2, s2, y1, y2], rest) else None)"
| "match_date_token _ = None"

text \<open>The balance row \<open>\d{2}/\d{2}/\d{2}\s+[\d.,]+\s+SALDO\<close>, as \<open>re.match\<close> tests it.\<close>

definition is_saldo_char :: "char \<Rightarrow> bool" where
  "is_saldo_char c = (is_digit c \<or> c = CHR ''.'' \<or> c = CHR '','')"

definition is_saldo_row :: "string \<Rightarrow> bool" where
  "is_saldo_row line =
     (case match_date_token line of None \<Rightarrow> False | Some (d, r0) \<Rightarrow>
     (case skip_spaces1 r0 of None \<Rightarrow> False | Some r1 \<Rightarrow>
      takeWhile is_saldo_char r1 \<noteq> [] \<and>
      (case skip_spaces1 (dropWhile is_saldo_char r1) of None \<Rightarrow> False | Some r2 \<Rightarrow>
       startswith ''SALDO'' r2)))"

text \<open>
  The tail \<open>\s+(.+)\<close> of the transaction-start pattern; the point matches every character
  but the newline. With a character left after the whitespace, the group is the text
  from there to the end of the line. With nothing left, the whitespace run gives back
  characters, and the group is its last character that is not a newline, the first
  character of the run excepted.
\<close>

definition match_rest :: "string \<Rightarrow> string option" where
  "match_rest s =
     (let ws = takeWhile is_space s; r = dropWhile is_space s in
      if ws = [] then None
      else if r \<noteq> [] then Some (takeWhile (\<lambda>c. c \<noteq> newline) r)
      else case filter (\<lambda>c. c \<noteq> newline) (tl ws) of
             [] \<Rightarrow> None
           | c # cs \<Rightarrow> Some [last (c # cs)])"

text \<open>\<open>^(\d{2}/\d{2}/\d{2})\s+(\d{2}/\d{2}/\d{2})\s+(.+)\<close>: the three groups.\<close>

definition match_transaction_start :: "string \<Rightarrow> (string \<times> string \<times> string) option" where
  "match_transaction_start line =
     (case match_date_token line of None \<Rightarrow> None | Some (g1, r0) \<Rightarrow>
     (case skip_spaces1 r0 of None \<Rightarrow> None | Some r1 \<Rightarrow>
     (case match_date_token r1 of None \<Rightarrow> None | Some (g2, r2) \<Rightarrow>
     (case match_rest r2 of None \<Rightarrow> None | Some g3 \<Rightarrow> Some (g1, g2, g3)))))"

text \<open>A transaction dictionary. The keys \<open>categoria_suggerita\<close> and \<open>numero_progressivo\<close>
  are added after its creation: \<open>None\<close> is the absent key.\<close>

record transaction =
  data_transazione :: "date option"
  data_valuta :: "date option"
  importo_uscita :: "rat option"
  importo_entrata :: "rat option"
  importo :: rat
  descrizione :: string
  tipo_movimento :: string
  pagina :: nat
  categoria_suggerita :: "string option"
  numero_progressivo :: "nat option"

text \<open>The dictionary built at a transaction-start line from the three groups.\<close>

definition new_transaction :: "string \<Rightarrow> string \<Rightarrow> string \<Rightarrow> nat \<Rightarrow> transaction" where
  "new_transaction data_trans data_val resto_riga page_num =
     (let trans_data = parse_transaction_amounts resto_riga in
      \<lparr>data_transazione = parse_date_short data_trans,
       data_valuta = parse_date_short data_val,
       importo_uscita = uscita trans_data,
       importo_entrata = entrata trans_data,
       importo = importo_netto trans_data,
       descrizione = descrizione_riga trans_data,
       tipo_movimento = (if importo_netto trans_data > 0 then ''ENTRATA'' else ''USCITA''),
       pagina = page_num,
       categoria_suggerita = None,
       numero_progressivo = None\<rparr>)"

text \<open>One iteration of the loop over the table's lines; the state is the list
  \<open>transactions\<close> and \<open>current_transaction\<close>.\<close>

definition process_line ::
  "nat \<Rightarrow> transaction list \<times> transaction option \<Rightarrow> string
     \<Rightarrow> transaction list \<times> transaction option" where
  "process_line page_num st raw =
     (let line = strip raw; transactions = fst st; current = snd st in
      if line = [] then st
      else if is_saldo_row line then st
      else case match_transaction_start line of
             Some (data_trans, data_val, resto_riga) \<Rightarrow>
               ((case current of Some t \<Rightarrow> transactions @ [t] | None \<Rightarrow> transactions),
                Some (new_transaction data_trans data_val resto_riga page_num))
           | None \<Rightarrow>
               (case current of
                  Some t \<Rightarrow> (transactions, Some (t\<lparr>descrizione := descrizione t @ '' '' @ line\<rparr>))
                | None \<Rightarrow> st))"

text \<open>\<open>page_text.split('\n')\<close>\<close>

fun split_lines :: "string \<Rightarrow> string list" where
  "split_lines [] = [[]]"
| "split_lines (c # cs) =
     (if c = newline then [] # split_lines cs
      else case split_lines cs of
             l # ls \<Rightarrow> (c # l) # ls
           | [] \<Rightarrow> [[c]])"

text \<open>The lines after the first header line (\<open>lines[start_idx:]\<close>), if there is one.\<close>

fun after_header :: "string list \<Rightarrow> string list option" where
  "after_header [] = None"
| "after_header (l # ls) = (if search_header l then Some ls else after_header ls)"

text \<open>The last step of the page: description cleaned, category suggested.\<close>

definition finish_transaction :: "transaction \<Rightarrow> transaction" where
  "finish_transaction tr =
     (let d = clean_description (descrizione tr) in
      tr\<lparr>descrizione := d, categoria_suggerita := Some (suggest_category d)\<rparr>)"

definition table_lines :: "string list \<Rightarrow> string list" where
  "table_lines body = takeWhile (\<lambda>l. \<not> is_footer l) body"

definition extract_transactions_from_page :: "string \<Rightarrow> nat \<Rightarrow> transaction list" where
  "extract_transactions_from_page page_text page_num =
     (case after_header (split_lines page_text) of
        None \<Rightarrow> []
      | Some body \<Rightarrow>
          let st = foldl (process_line page_num) ([], None) (table_lines body);
              transactions = (case snd st of Some t \<Rightarrow> fst st @ [t] | None \<Rightarrow> fst st)
          in map finish_transaction transactions)"

subsection \<open>Document assembler\<close>

text \<open>The loop over \<open>enumerate(page_texts, 1)\<close>, extending \<open>all_transactions\<close> page by page.\<close>

fun all_page_transactions :: "nat \<Rightarrow> string list \<Rightarrow> transaction list" where
  "all_page_transactions page_num [] = []"
| "all_page_transactions page_num (page_text # rest) =
     extract_transactions_from_page page_text page_num @ all_page_transactions (Suc page_num) rest"

text \<open>
  \<open>all_transactions.sort(key=lambda x: x['data_transazione'])\<close>. The sort of Python is
  stable and ascending. A list of fewer than two elements is not compared at all; in a
  longer one every element is compared at least once, and a comparison with \<open>None\<close> on
  either side raises \<open>TypeError\<close>.
\<close>

definition sort_by_date :: "transaction list \<Rightarrow> error + transaction list" where
  "sort_by_date ts =
     (if length ts < 2 then Inr ts
      else if list_ex (\<lambda>t. data_transazione t = None) ts then Inl TypeError
      else Inr (sort_key (\<lambda>t. the (data_transazione t)) ts))"

text \<open>The loop over \<open>enumerate(all_transactions, 1)\<close>.\<close>

fun number_from :: "nat \<Rightarrow> transaction list \<Rightarrow> transaction list" where
  "number_from i [] = []"
| "number_from i (t # ts) = t\<lparr>numero_progressivo := Some i\<rparr> # number_from (Suc i) ts"

definition extract_all_transactions :: "string list \<Rightarrow> error + transaction list" where
  "extract_all_transactions page_texts =
     (case sort_by_date (all_page_transactions 1 page_texts) of
        Inl e \<Rightarrow> Inl e
      | Inr sorted_transactions \<Rightarrow> Inr (number_from 1 sorted_transactions))"

subsection \<open>Statistics aggregator\<close>













subsection \<open>Predicates and measures used in the statements\<close>








subsection \<open>Concrete inputs\<close>

text \<open>Line remainders (the text after the two dates of a transaction-start line).\<close>

definition far_two_amount_line :: string where
  "far_two_amount_line = ''PAGAMENTO POS CARTA 123 10,00 20,00''"

definition near_two_amount_line :: string where
  "near_two_amount_line = ''10,00 20,00 PAGAMENTO CONAD''"

definition zero_inflow_line :: string where
  "zero_inflow_line = ''10,00 0,00 STORNO''"

definition only_zero_inflow_line :: string where
  "only_zero_inflow_line = ''COMMISSIONI BANCARIE XYZ 0,00''"


definition paypal_farmacia :: string where
  "paypal_farmacia = ''Pagamento PayPal farmacia''"




definition bad_date_page :: string where
  "bad_date_page =
     ''DATA VALUTA USCITE ENTRATE DESCRIZIONE'' @ [newline] @
     ''99/99/24 03/01/24 10,00 BAR ROMA'' @ [newline] @
     ''02/01/24 02/01/24 5,00 CONAD''"

definition record_a1 :: "nat \<Rightarrow> transaction" where
  "record_a1 n =
     \<lparr>data_transazione = Some (2024, 1, 3), data_valuta = Some (2024, 1, 3),
      importo_uscita = Some 10, importo_entrata = None, importo = - 10,
      descrizione = ''BAR ROMA'', tipo_movimento = ''USCITA'', pagina = n,
      categoria_suggerita = Some ''Ristorazione'', numero_progressivo = None\<rparr>"

definition record_a2 :: "nat \<Rightarrow> transaction" where
  "record_a2 n =
     \<lparr>data_transazione = Some (2024, 1, 2), data_valuta = Some (2024, 1, 2),
      importo_uscita = Some 5, importo_entrata = None, importo = - 5,
      descrizione = ''CONAD'', tipo_movimento = ''USCITA'', pagina = n,
      categoria_suggerita = Some ''Spesa Alimentari'', numero_progressivo = None\<rparr>"





section \<open>Verification\<close>

subsection \<open>Monetary field extractor\<close>

lemma digit_not_space: "is_digit c \<Longrightarrow> \<not> is_space c"
  by (auto simp: is_digit_def is_space_def)


















subsection \<open>Date extractor\<close>

lemma digits_val2: "digits_val [a, b] = 10 * digit_val a + digit_val b"
  by (simp add: digits_val_def)

lemma digit_val_le: "is_digit c \<Longrightarrow> digit_val c \<le> 9"
  by (auto simp: is_digit_def digit_val_def)

lemma days_in_month_le: "days_in_month y m \<le> 31"
  by (simp add: days_in_month_def)

lemma resolve_year_cases:
  "yy \<le> 99 \<Longrightarrow> resolve_year yy = (if yy \<le> 30 then 2000 + yy else 1900 + yy)"
  by (simp add: resolve_year_def strptime_year_def Let_def)

lemma is_leap_century: 
  assumes "31 \<le> yy" "yy \<le> 68"
  shows "is_leap (1900 + yy) = is_leap (2000 + yy)"
proof -
  have a: "(1900 + yy) mod 4 = yy mod 4" "(2000 + yy) mod 4 = yy mod 4"
    using mod_mult_self2[of yy 4 475] mod_mult_self2[of yy 4 500] by (simp_all add: add.commute)
  have b: "(1900 + yy) mod 100 = yy" "(2000 + yy) mod 100 = yy"
    using mod_mult_self2[of yy 100 19] mod_mult_self2[of yy 100 20] assms by (simp_all add: add.commute)
  show ?thesis using assms by (simp add: is_leap_def a b)
qed

lemma days_in_month_century:
  "31 \<le> yy \<Longrightarrow> yy \<le> 68 \<Longrightarrow> days_in_month (1900 + yy) m = days_in_month (2000 + yy) m"
  by (simp add: days_in_month_def is_leap_century)

lemma days_resolve:
  "yy \<le> 99 \<Longrightarrow> days_in_month (resolve_year yy) m = days_in_month (strptime_year yy) m"
  using days_in_month_century[of yy m]
  by (simp add: resolve_year_def strptime_year_def Let_def)

lemma resolve_date:
  assumes "yy \<le> 99"
  shows "(case (if 1 \<le> d \<and> d \<le> 31 \<and> 1 \<le> m \<and> m \<le> 12
                then make_date (strptime_year yy) m d else None) of
            None \<Rightarrow> None
          | Some (y, m', d') \<Rightarrow> if y > 2030 then make_date (y - 100) m' d' else Some (y, m', d'))
         = (if 1 \<le> m \<and> m \<le> 12 \<and> 1 \<le> d \<and> d \<le> days_in_month (resolve_year yy) m
            then Some (resolve_year yy, m, d) else None)"
proof (cases "1 \<le> m \<and> m \<le> 12 \<and> 1 \<le> d \<and> d \<le> days_in_month (strptime_year yy) m")
  case True
  then have d31: "d \<le> 31" using days_in_month_le[of "strptime_year yy" m] by linarith
  have y: "1 \<le> strptime_year yy" "strptime_year yy \<le> 9999" using assms
    by (simp_all add: strptime_year_def)
  have md: "make_date (strptime_year yy) m d = Some (strptime_year yy, m, d)"
    using True y by (simp add: make_date_def)
  show ?thesis
  proof (cases "strptime_year yy > 2030")
    case far: True
    then have r: "resolve_year yy = strptime_year yy - 100" by (simp add: resolve_year_def)
    have "make_date (resolve_year yy) m d = Some (resolve_year yy, m, d)"
      using True far assms days_resolve[OF assms, of m] unfolding make_date_def r[symmetric]
      by (simp add: resolve_year_def strptime_year_def split: if_splits)
    then show ?thesis using True d31 md far days_resolve[OF assms, of m] by (simp add: r)
  next
    case near: False
    then have r: "resolve_year yy = strptime_year yy" by (simp add: resolve_year_def)
    show ?thesis using True d31 md near by (simp add: r)
  qed
next
  case False
  then have "make_date (strptime_year yy) m d = None" by (auto simp: make_date_def)
  then show ?thesis using False days_resolve[OF assms, of m] by auto
qed

text \<open>
  C5. For a date token \<open>DD/MM/YY\<close> of digits, \<open>_parse_date_short\<close> returns the date with the
  year 2000+YY when YY is in 0..30 and 1900+YY when YY is in 31..99, provided the day and
  month exist in that year (and \<open>None\<close> otherwise); the century resolution is injective
  on 0..99.
\<close>

theorem century_resolution:
  assumes "is_digit d1" "is_digit d2" "is_digit m1" "is_digit m2" "is_digit y1" "is_digit y2"
  shows "digits_val [y1, y2] \<le> 99 \<and>
         parse_date_short [d1, d2, CHR ''/'', m1, m2, CHR ''/'', y1, y2] =
           (let dd = digits_val [d1, d2]; mm = digits_val [m1, m2];
                year = (if digits_val [y1, y2] \<le> 30 then 2000 + digits_val [y1, y2]
                        else 1900 + digits_val [y1, y2])
            in if 1 \<le> mm \<and> mm \<le> 12 \<and> 1 \<le> dd \<and> dd \<le> days_in_month year mm
               then Some (year, mm, dd) else None) \<and>
         (\<forall>yy \<le> 99. resolve_year yy = (if yy \<le> 30 then 2000 + yy else 1900 + yy)) \<and>
         inj_on resolve_year {0..99}"
proof (intro conjI)
  show le: "digits_val [y1, y2] \<le> 99"
    using digit_val_le[OF assms(5)] digit_val_le[OF assms(6)] by (simp add: digits_val2)
  have "parse_date_short [d1, d2, CHR ''/'', m1, m2, CHR ''/'', y1, y2] =
      (case (if 1 \<le> digits_val [d1, d2] \<and> digits_val [d1, d2] \<le> 31 \<and>
                1 \<le> digits_val [m1, m2] \<and> digits_val [m1, m2] \<le> 12
             then make_date (strptime_year (digits_val [y1, y2])) (digits_val [m1, m2]) (digits_val [d1, d2])
             else None) of
         None \<Rightarrow> None
       | Some (y, m', d') \<Rightarrow> if y > 2030 then make_date (y - 100) m' d' else Some (y, m', d'))"
    using assms by (simp add: parse_date_short_def Let_def)
  also note resolve_date[OF le]
  finally show "parse_date_short [d1, d2, CHR ''/'', m1, m2, CHR ''/'', y1, y2] =
           (let dd = digits_val [d1, d2]; mm = digits_val [m1, m2];
                year = (if digits_val [y1, y2] \<le> 30 then 2000 + digits_val [y1, y2]
                        else 1900 + digits_val [y1, y2])
            in if 1 \<le> mm \<and> mm \<le> 12 \<and> 1 \<le> dd \<and> dd \<le> days_in_month year mm
               then Some (year, mm, dd) else None)"
    using resolve_year_cases[OF le] by (simp add: Let_def)
  show "\<forall>yy \<le> 99. resolve_year yy = (if yy \<le> 30 then 2000 + yy else 1900 + yy)"
    using resolve_year_cases by blast
  show "inj_on resolve_year {0..99}"
    by (rule inj_onI) (auto simp: resolve_year_cases split: if_splits)
qed

theorem century_resolution_witness:
  "parse_date_short ''29/02/32'' = Some (1932, 2, 29) \<and>
   parse_date_short ''15/06/24'' = Some (2024, 6, 15) \<and>
   parse_date_short ''31/02/24'' = None \<and>
   resolve_year 30 = 2030 \<and> resolve_year 31 = 1931"
proof -
  have d: "is_digit CHR ''0''" "is_digit CHR ''1''" "is_digit CHR ''2''" "is_digit CHR ''3''"
    "is_digit CHR ''4''" "is_digit CHR ''5''" "is_digit CHR ''6''" "is_digit CHR ''9''"
    by (simp_all add: is_digit_def)
  have v: "digits_val ''29'' = 29" "digits_val ''02'' = 2" "digits_val ''32'' = 32"
    "digits_val ''15'' = 15" "digits_val ''06'' = 6" "digits_val ''24'' = 24" "digits_val ''31'' = 31"
    by (simp_all add: digits_val_def digit_val_def)
  have a: "parse_date_short ''29/02/32'' = Some (1932, 2, 29)"
    using century_resolution [of "CHR ''2''" "CHR ''9''" "CHR ''0''" "CHR ''2''" "CHR ''3''" "CHR ''2''"] d v
    by (simp add: days_in_month_def is_leap_def)
  have b: "parse_date_short ''15/06/24'' = Some (2024, 6, 15)"
    using century_resolution [of "CHR ''1''" "CHR ''5''" "CHR ''0''" "CHR ''6''" "CHR ''2''" "CHR ''4''"] d v
    by (simp add: days_in_month_def is_leap_def)
  have c: "parse_date_short ''31/02/24'' = None"
    using century_resolution [of "CHR ''3''" "CHR ''1''" "CHR ''0''" "CHR ''2''" "CHR ''2''" "CHR ''4''"] d v
    by (simp add: days_in_month_def is_leap_def)
  have e: "resolve_year 30 = 2030 \<and> resolve_year 31 = 1931"
    using century_resolution [of "CHR ''1''" "CHR ''5''" "CHR ''0''" "CHR ''6''" "CHR ''2''" "CHR ''4''"] d
    by simp
  from a b c e show ?thesis by simp
qed

subsection \<open>Amount disambiguation\<close>

lemmas char_defs = is_digit_def is_space_def is_amount_char_def is_saldo_char_def euro_def newline_def

lemmas amount_defs = parse_transaction_amounts_def findall_amounts_def match_amount_def
  classify_amounts_def net_amount_def truthy_def py_find_def parse_amount_def normalise_amount_def
  py_float_def unsigned_float_def strip_def digits_val_def digit_val_def

lemma far_findall: "findall_amounts far_two_amount_line = [''10,00'', ''20,00'']"
  by (simp add: far_two_amount_line_def amount_defs char_defs)

lemma near_findall: "findall_amounts near_two_amount_line = [''10,00'', ''20,00'']"
  by (simp add: near_two_amount_line_def amount_defs char_defs)

lemma far_find: "py_find far_two_amount_line ''10,00'' = 24"
  by (simp add: far_two_amount_line_def py_find_def)

lemma near_find: "py_find near_two_amount_line ''10,00'' = 0"
  by (simp add: near_two_amount_line_def py_find_def)

lemma amounts_10_20: "parse_amount ''10,00'' = 10" "parse_amount ''20,00'' = 20"
  by (simp_all add: amount_defs char_defs)

text \<open>
  A line with two money tokens whose first token is past offset 20: the first token is
  classified as the inflow, the second token is not used, and no outflow is set.
\<close>

theorem two_amounts_counterexample:
  "findall_amounts far_two_amount_line = [''10,00'', ''20,00''] \<and>
   uscita (parse_transaction_amounts far_two_amount_line) = None \<and>
   entrata (parse_transaction_amounts far_two_amount_line) = Some 10 \<and>
   \<not> (uscita (parse_transaction_amounts far_two_amount_line) = Some (parse_amount ''10,00'') \<and>
      entrata (parse_transaction_amounts far_two_amount_line) = Some (parse_amount ''20,00''))"
  by (simp add: far_findall parse_transaction_amounts_def classify_amounts_def far_find amounts_10_20)

text \<open>
  C1 (amended). For a line remainder with exactly two money tokens, the classification
  depends on the offset of the first token: at offset at most 20 the first token is the
  outflow and the second the inflow; past offset 20 the first token is the inflow and
  the outflow is absent.
\<close>

theorem two_amounts_classification:
  assumes "findall_amounts line = [a, b]"
  shows "(py_find line a \<le> 20 \<longrightarrow>
            uscita (parse_transaction_amounts line) = Some (parse_amount a) \<and>
            entrata (parse_transaction_amounts line) = Some (parse_amount b)) \<and>
         (py_find line a > 20 \<longrightarrow>
            uscita (parse_transaction_amounts line) = None \<and>
            entrata (parse_transaction_amounts line) = Some (parse_amount a))"
  using assms by (simp add: parse_transaction_amounts_def classify_amounts_def)

theorem two_amounts_classification_witness:
  "findall_amounts near_two_amount_line = [''10,00'', ''20,00''] \<and>
   py_find near_two_amount_line ''10,00'' \<le> 20 \<and>
   uscita (parse_transaction_amounts near_two_amount_line) = Some 10 \<and>
   entrata (parse_transaction_amounts near_two_amount_line) = Some 20 \<and>
   findall_amounts far_two_amount_line = [''10,00'', ''20,00''] \<and>
   py_find far_two_amount_line ''10,00'' > 20 \<and>
   uscita (parse_transaction_amounts far_two_amount_line) = None \<and>
   entrata (parse_transaction_amounts far_two_amount_line) = Some 10"
  using two_amounts_classification [OF near_findall] two_amounts_classification [OF far_findall]
  by (simp add: near_findall far_findall near_find far_find amounts_10_20)

subsection \<open>Net amount\<close>

lemma importo_netto_net_amount:
  "importo_netto (parse_transaction_amounts l) =
     net_amount (uscita (parse_transaction_amounts l)) (entrata (parse_transaction_amounts l))"
  by (simp add: parse_transaction_amounts_def Let_def split: prod.split)

lemma new_transaction_fields:
  "importo (new_transaction dt dv l n) = importo_netto (parse_transaction_amounts l)"
  "importo_uscita (new_transaction dt dv l n) = uscita (parse_transaction_amounts l)"
  "importo_entrata (new_transaction dt dv l n) = entrata (parse_transaction_amounts l)"
  "tipo_movimento (new_transaction dt dv l n) =
     (if importo_netto (parse_transaction_amounts l) > 0 then ''ENTRATA'' else ''USCITA'')"
  by (simp_all add: new_transaction_def Let_def)

lemma zero_inflow_amounts:
  "uscita (parse_transaction_amounts zero_inflow_line) = Some 10"
  "entrata (parse_transaction_amounts zero_inflow_line) = Some 0"
  by (simp_all add: zero_inflow_line_def amount_defs char_defs)

lemma only_zero_inflow_amounts:
  "uscita (parse_transaction_amounts only_zero_inflow_line) = None"
  "entrata (parse_transaction_amounts only_zero_inflow_line) = Some 0"
  by (simp_all add: only_zero_inflow_line_def amount_defs char_defs)

text \<open>
  C10. The net amount tests the parsed inflow for being non-zero, not for being present:
  a non-zero inflow is the net amount; with an inflow that parsed to 0 and an outflow
  \<open>u\<close> the net amount is \<open>-u\<close>; with an inflow that parsed to 0 and no outflow the net
  amount is 0 and the movement type of the record is \<open>USCITA\<close>.
\<close>

theorem net_amount_tests_nonzero:
  "(entrata (parse_transaction_amounts resto) = Some e \<and> e \<noteq> 0 \<longrightarrow>
      importo (new_transaction dt dv resto n) = e) \<and>
   (entrata (parse_transaction_amounts resto) = Some 0 \<and>
    uscita (parse_transaction_amounts resto) = Some u \<longrightarrow>
      importo_netto (parse_transaction_amounts resto) = - u \<and>
      importo (new_transaction dt dv resto n) = - u) \<and>
   (entrata (parse_transaction_amounts resto) = Some 0 \<and>
    uscita (parse_transaction_amounts resto) = None \<longrightarrow>
      importo_netto (parse_transaction_amounts resto) = 0 \<and>
      importo (new_transaction dt dv resto n) = 0 \<and>
      tipo_movimento (new_transaction dt dv resto n) = ''USCITA'')"
  by (simp add: new_transaction_fields importo_netto_net_amount net_amount_def truthy_def)

theorem net_amount_tests_nonzero_witness:
  "entrata (parse_transaction_amounts zero_inflow_line) = Some 0 \<and>
   uscita (parse_transaction_amounts zero_inflow_line) = Some 10 \<and>
   importo (new_transaction ''02/01/24'' ''02/01/24'' zero_inflow_line 1) = - 10 \<and>
   entrata (parse_transaction_amounts only_zero_inflow_line) = Some 0 \<and>
   uscita (parse_transaction_amounts only_zero_inflow_line) = None \<and>
   importo (new_transaction ''02/01/24'' ''02/01/24'' only_zero_inflow_line 1) = 0 \<and>
   tipo_movimento (new_transaction ''02/01/24'' ''02/01/24'' only_zero_inflow_line 1) = ''USCITA'' \<and>
   entrata (parse_transaction_amounts near_two_amount_line) = Some 20 \<and>
   importo (new_transaction ''02/01/24'' ''02/01/24'' near_two_amount_line 1) = 20"
proof -
  have near: "entrata (parse_transaction_amounts near_two_amount_line) = Some 20"
    by (simp add: parse_transaction_amounts_def classify_amounts_def near_findall near_find
        amounts_10_20)
  from net_amount_tests_nonzero
         [of zero_inflow_line 1 "''02/01/24''" "''02/01/24''" 1 10]
       net_amount_tests_nonzero
         [of only_zero_inflow_line 1 "''02/01/24''" "''02/01/24''" 1 0]
       net_amount_tests_nonzero
         [of near_two_amount_line 20 "''02/01/24''" "''02/01/24''" 1 0]
       zero_inflow_amounts only_zero_inflow_amounts near
  show ?thesis by simp
qed

subsection \<open>Records of a page\<close>

lemmas page_defs = extract_transactions_from_page_def table_lines_def is_footer_def
  match_header_def match_lit_def skip_spaces1_def process_line_def is_saldo_row_def
  match_transaction_start_def match_rest_def new_transaction_def finish_transaction_def
  clean_description_def match_rif_def suggest_category_def categories_def lower_def lower_char_def
  parse_date_short_def make_date_def strptime_year_def days_in_month_def is_leap_def













subsection \<open>Categorizer\<close>

lemma startswith_iff: "startswith p s \<longleftrightarrow> (\<exists>q. s = p @ q)"
  by (induction p s rule: startswith.induct) auto

lemma contains_iff: "contains sub s \<longleftrightarrow> (\<exists>p q. s = p @ sub @ q)"
proof (induction s)
  case Nil
  then show ?case by simp
next
  case (Cons c cs)
  show ?case
  proof
    assume "contains sub (c # cs)"
    then consider "startswith sub (c # cs)" | "contains sub cs" by auto
    then show "\<exists>p q. c # cs = p @ sub @ q"
    proof cases
      case 1
      then obtain q where "c # cs = sub @ q" by (auto simp: startswith_iff)
      then have "c # cs = [] @ sub @ q" by simp
      then show ?thesis by blast
    next
      case 2
      then obtain p q where "cs = p @ sub @ q" using Cons.IH by blast
      then have "c # cs = (c # p) @ sub @ q" by simp
      then show ?thesis by blast
    qed
  next
    assume "\<exists>p q. c # cs = p @ sub @ q"
    then obtain p q where e: "c # cs = p @ sub @ q" by blast
    show "contains sub (c # cs)"
    proof (cases p)
      case Nil
      with e have "startswith sub (c # cs)" by (auto simp: startswith_iff)
      then show ?thesis by simp
    next
      case (Cons a p')
      with e have "cs = p' @ sub @ q" by simp
      then have "contains sub cs" using Cons.IH by blast
      then show ?thesis by simp
    qed
  qed
qed

lemma keyword_loop_iff: "keyword_loop kws d \<longleftrightarrow> (\<exists>k\<in>set kws. contains k d)"
  by (induction kws) auto

lemma category_loop_none:
  "\<forall>entry\<in>set tbl. \<not> keyword_loop (snd entry) d \<Longrightarrow> category_loop tbl d = ''Altro''"
  by (induction tbl) auto

lemma category_loop_first:
  "i < length tbl \<Longrightarrow> keyword_loop (snd (tbl ! i)) d \<Longrightarrow>
   \<forall>j<i. \<not> keyword_loop (snd (tbl ! j)) d \<Longrightarrow> category_loop tbl d = fst (tbl ! i)"
proof (induction tbl arbitrary: i)
  case Nil
  then show ?case by simp
next
  case (Cons entry tbl)
  obtain c kws where entry: "entry = (c, kws)" by (cases entry)
  show ?case
  proof (cases i)
    case 0
    with Cons.prems entry show ?thesis by simp
  next
    case (Suc i')
    from Cons.prems(3) Suc have "\<not> keyword_loop (snd ((entry # tbl) ! 0)) d" by blast
    then have no: "\<not> keyword_loop kws d" by (simp add: entry)
    have "\<forall>j<i'. \<not> keyword_loop (snd (tbl ! j)) d"
    proof (intro allI impI)
      fix j assume "j < i'"
      then have "Suc j < i" using Suc by simp
      with Cons.prems(3) have "\<not> keyword_loop (snd ((entry # tbl) ! Suc j)) d" by blast
      then show "\<not> keyword_loop (snd (tbl ! j)) d" by simp
    qed
    moreover from Cons.prems Suc have "i' < length tbl" "keyword_loop (snd (tbl ! i')) d" by simp_all
    ultimately have "category_loop tbl d = fst (tbl ! i')" by (intro Cons.IH)
    then show ?thesis using no entry Suc by simp
  qed
qed

text \<open>
  C7. \<open>_suggest_category\<close> lower-cases the description and returns the label of the first
  category, in the declared order of the table, one of whose keywords occurs in it as a
  substring; when no keyword of any category occurs the result is \<open>Altro\<close>. Categories
  declared later are not consulted, whether they match or not.
\<close>

theorem suggest_category_first_match:
  "(contains k s \<longleftrightarrow> (\<exists>p q. s = p @ k @ q)) \<and>
   ((\<forall>entry\<in>set categories. \<forall>kw\<in>set (snd entry). \<not> contains kw (lower description)) \<longrightarrow>
      suggest_category description = ''Altro'') \<and>
   (i < length categories \<and>
    (\<exists>kw\<in>set (snd (categories ! i)). contains kw (lower description)) \<and>
    (\<forall>j<i. \<forall>kw\<in>set (snd (categories ! j)). \<not> contains kw (lower description)) \<longrightarrow>
      suggest_category description = fst (categories ! i))"
proof (intro conjI impI)
  show "contains k s \<longleftrightarrow> (\<exists>p q. s = p @ k @ q)" by (rule contains_iff)
next
  assume "\<forall>entry\<in>set categories. \<forall>kw\<in>set (snd entry). \<not> contains kw (lower description)"
  then have "\<forall>entry\<in>set categories. \<not> keyword_loop (snd entry) (lower description)"
    by (simp add: keyword_loop_iff)
  then show "suggest_category description = ''Altro''"
    unfolding suggest_category_def by (rule category_loop_none)
next
  assume a: "i < length categories \<and>
    (\<exists>kw\<in>set (snd (categories ! i)). contains kw (lower description)) \<and>
    (\<forall>j<i. \<forall>kw\<in>set (snd (categories ! j)). \<not> contains kw (lower description))"
  then have "i < length categories" "keyword_loop (snd (categories ! i)) (lower description)"
    "\<forall>j<i. \<not> keyword_loop (snd (categories ! j)) (lower description)"
    by (simp_all add: keyword_loop_iff)
  then show "suggest_category description = fst (categories ! i)"
    unfolding suggest_category_def by (rule category_loop_first)
qed

lemma all_less_3: "(\<forall>j<3::nat. P j) \<longleftrightarrow> P 0 \<and> P 1 \<and> P 2"
proof
  assume "\<forall>j<3::nat. P j"
  then show "P 0 \<and> P 1 \<and> P 2" by simp
next
  assume a: "P 0 \<and> P 1 \<and> P 2"
  show "\<forall>j<3::nat. P j"
  proof (intro allI impI)
    fix j :: nat assume "j < 3"
    then have "j = 0 \<or> j = 1 \<or> j = 2" by arith
    with a show "P j" by blast
  qed
qed

theorem suggest_category_first_match_witness:
  "contains ''paypal'' (lower paypal_farmacia) \<and>
   contains ''farmacia'' (lower paypal_farmacia) \<and>
   suggest_category paypal_farmacia = ''PayPal'' \<and>
   suggest_category ''xyz'' = ''Altro''"
proof -
  have l: "lower paypal_farmacia = ''pagamento paypal farmacia''"
    by (simp add: paypal_farmacia_def lower_def lower_char_def)
  have c: "contains ''paypal'' (lower paypal_farmacia)" "contains ''farmacia'' (lower paypal_farmacia)"
    by (simp_all add: l)
  have i: "(3::nat) < length categories" "categories ! 3 = (''PayPal'', [''paypal''])"
    by (simp_all add: categories_def)
  have e: "\<forall>j<3::nat. \<forall>kw\<in>set (snd (categories ! j)). \<not> contains kw (lower paypal_farmacia)"
    unfolding all_less_3 by (simp add: categories_def l)
  have n: "\<forall>entry\<in>set categories. \<forall>kw\<in>set (snd entry). \<not> contains kw (lower ''xyz'')"
    by (simp add: categories_def lower_def lower_char_def)
  from suggest_category_first_match [of "''paypal''" "''paypal''" paypal_farmacia 3] c i e
  have "suggest_category paypal_farmacia = ''PayPal''" by simp
  moreover from suggest_category_first_match [of "''paypal''" "''paypal''" "''xyz''" 0] n
  have "suggest_category ''xyz'' = ''Altro''" by blast
  ultimately show ?thesis using c by simp
qed

subsection \<open>Document assembler\<close>














lemma bad_date_page_records:
  "extract_transactions_from_page bad_date_page n =
     [(record_a1 n)\<lparr>data_transazione := None\<rparr>, record_a2 n]"
  by (simp add: bad_date_page_def record_a1_def record_a2_def page_defs amount_defs char_defs)




lemma sort_by_date_raises:
  "2 \<le> length ts \<Longrightarrow> \<exists>t\<in>set ts. data_transazione t = None \<Longrightarrow> sort_by_date ts = Inl TypeError"
  by (auto simp: sort_by_date_def list_ex_iff)

text \<open>
  C3. A page with two transaction lines, the first with the date token \<open>99/99/24\<close>: the
  token matches the date pattern and fails to parse, the record gets the date \<open>None\<close>,
  and the sort of the assembler raises \<open>TypeError\<close>, so no document is returned.
\<close>

theorem unparsed_date_breaks_sort:
  "match_date_token ''99/99/24'' = Some (''99/99/24'', []) \<and>
   parse_date_short ''99/99/24'' = None \<and>
   map data_transazione (extract_transactions_from_page bad_date_page 1) = [None, Some (2024, 1, 2)] \<and>
   extract_all_transactions [bad_date_page] = Inl TypeError"
proof -
  have "sort_by_date (all_page_transactions 1 [bad_date_page]) = Inl TypeError"
    by (rule sort_by_date_raises) (simp_all add: bad_date_page_records record_a1_def)
  then have "extract_all_transactions [bad_date_page] = Inl TypeError"
    by (simp add: extract_all_transactions_def)
  moreover have "parse_date_short ''99/99/24'' = None"
    by (simp add: parse_date_short_def char_defs digits_val_def digit_val_def)
  moreover have "match_date_token ''99/99/24'' = Some (''99/99/24'', [])"
    by (simp add: char_defs)
  ultimately show ?thesis
    by (simp add: bad_date_page_records record_a1_def record_a2_def)
qed

subsection \<open>Statistics aggregator\<close>






















end
